theory Spec2Isabelle
  imports Main
begin

section \<open>Python values and strings\<close>

text \<open>
  The scripts under \<^verbatim>\<open>src/scripts\<close> work on pandas data frames whose cells are
  dynamically typed Python objects. A cell is \<^verbatim>\<open>None\<close>, the float NaN that pandas
  and tabula use for a missing cell, a \<^verbatim>\<open>str\<close>, an integer, or a float that is not
  NaN. Such a float is given by its \<^verbatim>\<open>str()\<close> form, as \<^verbatim>\<open>PyFloat ''2020.0''\<close>: the
  scripts read a cell only through \<^verbatim>\<open>str\<close>, and the formatting of floats is left to
  the interpreter.

  A Python \<^verbatim>\<open>str\<close> is modelled as a \<^typ>\<open>string\<close> whose characters are the code
  points below 256.
\<close>

datatype cell = PyNone | PyNaN | PyStr string | PyInt int | PyFloat string

datatype py_error = ValueError | TypeError | AttributeError | OSError

text \<open>\<^verbatim>\<open>str.isspace\<close> for one code point below 256.\<close>

definition is_space :: "char \<Rightarrow> bool" where
  "is_space c = (c \<in> set [CHR 0x09, CHR 0x0A, CHR 0x0B, CHR 0x0C, CHR 0x0D,
     CHR 0x1C, CHR 0x1D, CHR 0x1E, CHR 0x1F, CHR 0x20, CHR 0x85, CHR 0xA0])"

text \<open>\<^verbatim>\<open>s.strip()\<close>: drop the leading and the trailing whitespace.\<close>

definition py_strip :: "string \<Rightarrow> string" where
  "py_strip s = rev (dropWhile is_space (rev (dropWhile is_space s)))"

text \<open>
  \<^verbatim>\<open>s.lower()\<close> on code points below 256: the letters A to Z and the upper-case
  letters of Latin-1 (0xC0 to 0xDE without the multiplication sign 0xD7) move up by 32,
  which sets bit 5; every other code point stays.
\<close>

definition lower_char :: "char \<Rightarrow> char" where
  "lower_char c = (let n = (of_char c :: nat) in
     if (65 \<le> n \<and> n \<le> 90) \<or> (192 \<le> n \<and> n \<le> 222 \<and> n \<noteq> 215)
     then Char (digit0 c) (digit1 c) (digit2 c) (digit3 c) (digit4 c) True (digit6 c) (digit7 c)
     else c)"

definition py_lower :: "string \<Rightarrow> string" where
  "py_lower s = map lower_char s"

text \<open>\<^verbatim>\<open>str(n)\<close> for an integer: decimal digits, with a minus sign when negative.\<close>

fun str_nat :: "nat \<Rightarrow> string" where
  "str_nat n = (if n < 10 then [''0123456789'' ! n]
                else str_nat (n div 10) @ [''0123456789'' ! (n mod 10)])"

declare str_nat.simps [simp del]

definition str_int :: "int \<Rightarrow> string" where
  "str_int i = (if i < 0 then CHR ''-'' # str_nat (nat (- i)) else str_nat (nat i))"

fun py_str :: "cell \<Rightarrow> string" where
  "py_str PyNone = ''None''"
| "py_str PyNaN = ''nan''"
| "py_str (PyStr s) = s"
| "py_str (PyInt i) = str_int i"
| "py_str (PyFloat s) = s"

section \<open>Cleaning header cells\<close>

text \<open>
  \<^verbatim>\<open>_normalize_header_values\<close> of \<^verbatim>\<open>extract_table.py\<close>: the loop over the values
  appends one cleaned string per value.
\<close>

fun normalize_header_values :: "cell list \<Rightarrow> string list" where
  "normalize_header_values [] = []"
| "normalize_header_values (v # values) =
     (let s = (if v = PyNone then '''' else py_str v);
          s = py_strip s;
          s = (if py_lower s \<in> set [''nan'', ''none''] then '''' else s)
      in s # normalize_header_values values)"

section \<open>Data frames\<close>

text \<open>
  A pandas \<^verbatim>\<open>DataFrame\<close> as the scripts use it: its column index, the dtype of each
  column and its rows, in order. The column index is a flat \<^verbatim>\<open>Index\<close> of labels or a \<^verbatim>\<open>MultiIndex\<close> with
  one label sequence per level. The rows are kept as lists of any length, so that the
  length reconciliation of \<^verbatim>\<open>_apply_multirow_header\<close> is modelled for every length
  of a header row; in a data frame every row has \<^verbatim>\<open>df.shape[1]\<close> cells.
\<close>

datatype column_index = Index "string list" | MultiIndex "string list list"

text \<open>
  The dtypes of the columns: \<^verbatim>\<open>int64\<close>, \<^verbatim>\<open>float64\<close>, and \<^verbatim>\<open>object\<close> for a column
  that holds Python objects such as strings.
\<close>

datatype dtype = Int64 | Float64 | Object

record dataframe =
  columns :: column_index
  dtypes :: "dtype list"
  rows :: "cell list list"

text \<open>
  \<^verbatim>\<open>df.values\<close>, the cells of a frame as one array of one dtype. This is what
  \<^verbatim>\<open>DataFrame.apply(..., axis=1)\<close> hands to its function, row by row. The dtype of the
  array is the common dtype of the columns: \<^verbatim>\<open>object\<close> when a column is
  \<^verbatim>\<open>object\<close>, else \<^verbatim>\<open>float64\<close> when a column is \<^verbatim>\<open>float64\<close>, else \<^verbatim>\<open>int64\<close>. In
  an array of \<^verbatim>\<open>float64\<close> an integer \<^verbatim>\<open>n\<close> becomes the float \<^verbatim>\<open>float(n)\<close>; its
  \<^verbatim>\<open>str()\<close> form is taken from the parameter \<^verbatim>\<open>float_str\<close>, which stands for the
  float formatting of the interpreter. In the other two cases the cells stay as they
  are.
\<close>

definition common_dtype :: "dtype list \<Rightarrow> dtype" where
  "common_dtype dts =
     (if Object \<in> set dts then Object else if Float64 \<in> set dts then Float64 else Int64)"

fun astype :: "(int \<Rightarrow> string) \<Rightarrow> dtype \<Rightarrow> cell \<Rightarrow> cell" where
  "astype float_str Float64 (PyInt n) = PyFloat (float_str n)"
| "astype float_str dt v = v"

definition frame_values :: "(int \<Rightarrow> string) \<Rightarrow> dtype list \<Rightarrow> cell list list \<Rightarrow> cell list list" where
  "frame_values float_str dts rs = map (map (astype float_str (common_dtype dts))) rs"

text \<open>
  \<^verbatim>\<open>str(float(n))\<close> for an integer \<^verbatim>\<open>n\<close> of less than sixteen digits: the digits of
  \<^verbatim>\<open>n\<close> and \<^verbatim>\<open>.0\<close>. The examples use it as the float formatting.
\<close>

definition float_str_small :: "int \<Rightarrow> string" where
  "float_str_small n = str_int n @ ''.0''"

fun index_len :: "column_index \<Rightarrow> nat" where
  "index_len (Index labels) = length labels"
| "index_len (MultiIndex []) = 0"
| "index_len (MultiIndex (level # levels)) = length level"

text \<open>\<^verbatim>\<open>df.shape[1]\<close>, the number of columns.\<close>

definition shape1 :: "dataframe \<Rightarrow> nat" where
  "shape1 df = index_len (columns df)"

text \<open>\<^verbatim>\<open>pd.isna\<close> on one cell: pandas counts \<^verbatim>\<open>None\<close> and NaN as missing, and no string,
  the empty string included.\<close>

fun pd_isna :: "cell \<Rightarrow> bool" where
  "pd_isna PyNone = True"
| "pd_isna PyNaN = True"
| "pd_isna (PyStr s) = False"
| "pd_isna (PyInt i) = False"
| "pd_isna (PyFloat s) = False"

text \<open>
  \<^verbatim>\<open>ffill(axis=1)\<close> on one row: a missing value is replaced by the last value before it
  that is not missing, when there is one. The test for a missing value is a parameter,
  so that the same function fills a row of cells and a row of strings.
\<close>

fun ffill_from :: "('a \<Rightarrow> bool) \<Rightarrow> 'a option \<Rightarrow> 'a list \<Rightarrow> 'a list" where
  "ffill_from isna prev [] = []"
| "ffill_from isna prev (v # vs) =
     (if isna v then (case prev of None \<Rightarrow> v | Some w \<Rightarrow> w) # ffill_from isna prev vs
      else v # ffill_from isna (Some v) vs)"

text \<open>\<^verbatim>\<open>sep.join(parts)\<close> on a list of strings.\<close>

fun str_join :: "string \<Rightarrow> string list \<Rightarrow> string" where
  "str_join sep [] = []"
| "str_join sep [p] = p"
| "str_join sep (p # q # ps) = p @ sep @ str_join sep (q # ps)"

text \<open>
  The assignment \<^verbatim>\<open>data.columns = idx\<close>: pandas raises \<^verbatim>\<open>ValueError\<close> when the new
  index does not have one entry per column.
\<close>

definition set_columns :: "dataframe \<Rightarrow> column_index \<Rightarrow> py_error + dataframe" where
  "set_columns data idx =
     (if index_len idx = shape1 data then Inr (data\<lparr>columns := idx\<rparr>) else Inl ValueError)"

text \<open>
  \<^verbatim>\<open>pd.MultiIndex.from_arrays\<close> as pandas documents it: it needs at least one array and
  arrays of one length. The normalizer below takes the constructor as a parameter, so
  that its results hold for any behaviour of the library; this is the instance used for
  concrete runs.
\<close>

definition MultiIndex_from_arrays :: "string list list \<Rightarrow> py_error + column_index" where
  "MultiIndex_from_arrays arrays =
     (if arrays = [] then Inl ValueError
      else if list_all (\<lambda>arr. length arr = length (hd arrays)) arrays then Inr (MultiIndex arrays)
      else Inl ValueError)"

section \<open>The header normalizer\<close>

text \<open>
  \<^verbatim>\<open>_apply_multirow_header\<close>, lines 76 to 87: the header block is cut off, cleaned row
  by row (\<^verbatim>\<open>apply\<close> hands each row of the values of the header block to
  \<^verbatim>\<open>_normalize_header_values\<close>; the slice has the dtypes of the frame), forward-filled along each row, read back as one list per header row, and each
  list is cut or padded to \<^verbatim>\<open>df.shape[1]\<close> entries. After the cleaning the header frame
  holds \<^verbatim>\<open>str\<close> objects, so the fill tests \<^term>\<open>pd_isna (PyStr s)\<close>. The function
  is called after the two guards, with \<^verbatim>\<open>header_rows\<close> at most the number of rows, so
  that \<^verbatim>\<open>headers.iloc[i]\<close> is in range for every \<^verbatim>\<open>i\<close> of the loop.
\<close>

definition header_arrays :: "(int \<Rightarrow> string) \<Rightarrow> dataframe \<Rightarrow> nat \<Rightarrow> string list list" where
  "header_arrays float_str df header_rows =
     (let headers = take header_rows (rows df);
          headers = map normalize_header_values (frame_values float_str (dtypes df) headers);
          headers = map (ffill_from (\<lambda>s. pd_isna (PyStr s)) None) headers;
          arrays = map (\<lambda>i. headers ! i) [0..<header_rows];
          ncols = shape1 df
      in map (\<lambda>arr. if length arr < ncols then arr @ replicate (ncols - length arr) ''''
                     else take ncols arr) arrays)"

text \<open>
  The loop that builds \<^verbatim>\<open>flat_cols\<close>; the source has it twice with the same text, at
  lines 93 to 97 and in the \<^verbatim>\<open>except\<close> branch at lines 105 to 109. It runs on the
  arrays above, \<^verbatim>\<open>header_rows\<close> lists of \<^verbatim>\<open>ncols\<close> entries each, so that
  \<^verbatim>\<open>arrays[level][col_idx]\<close> is in range.
\<close>

definition flat_cols :: "string list list \<Rightarrow> nat \<Rightarrow> nat \<Rightarrow> string \<Rightarrow> string list" where
  "flat_cols arrays header_rows ncols sep =
     map (\<lambda>col_idx.
            let parts = map (\<lambda>level. arrays ! level ! col_idx) [0..<header_rows];
                parts = filter (\<lambda>p. p \<noteq> '''') parts
            in if parts \<noteq> [] then str_join sep parts else ''col_'' @ str_nat col_idx)
         [0..<ncols]"

text \<open>
  \<^verbatim>\<open>_apply_multirow_header\<close>. Its first two parameters stand for the library and the
  interpreter: the constructor \<^verbatim>\<open>pd.MultiIndex.from_arrays\<close> and the float formatting.
  The two guards return the frame itself. In the branch
  for \<^verbatim>\<open>flatten=False\<close> the \<^verbatim>\<open>try\<close> block holds the call of the constructor and the
  assignment of the columns; an exception of either runs the \<^verbatim>\<open>except\<close> branch.
\<close>

definition apply_multirow_header ::
  "(string list list \<Rightarrow> py_error + column_index) \<Rightarrow> (int \<Rightarrow> string) \<Rightarrow> dataframe \<Rightarrow> int
     \<Rightarrow> bool \<Rightarrow> string \<Rightarrow> py_error + dataframe" where
  "apply_multirow_header from_arrays float_str df header_rows flatten sep =
     (if header_rows \<le> 0 then Inr df
      else if int (length (rows df)) < header_rows then Inr df
      else
        let arrays = header_arrays float_str df (nat header_rows);
            ncols = shape1 df;
            data = df\<lparr>rows := drop (nat header_rows) (rows df)\<rparr>
        in if flatten then set_columns data (Index (flat_cols arrays (nat header_rows) ncols sep))
           else (case (case from_arrays arrays of
                         Inl e \<Rightarrow> Inl e
                       | Inr idx \<Rightarrow> set_columns data idx) of
                   Inr data' \<Rightarrow> Inr data'
                 | Inl e \<Rightarrow>
                     set_columns data (Index (flat_cols arrays (nat header_rows) ncols sep))))"

section \<open>Parsing the page specification\<close>

text \<open>
  \<^verbatim>\<open>s.split(c)\<close> for a separator of one character: the pieces between the
  separators, at least one piece.
\<close>

fun split_char :: "char \<Rightarrow> string \<Rightarrow> string list" where
  "split_char c [] = [[]]"
| "split_char c (x # xs) =
     (if x = c then [] # split_char c xs
      else (case split_char c xs of [] \<Rightarrow> [[x]] | y # ys \<Rightarrow> (x # y) # ys))"

text \<open>
  \<^verbatim>\<open>int(s)\<close> on a string, in base 10: surrounding whitespace is dropped, one sign is
  allowed, and the rest is decimal digits, where single underscores may stand between
  two digits. Anything else raises \<^verbatim>\<open>ValueError\<close>. The limit of the interpreter on
  the number of digits of one literal is not modelled.
\<close>

definition is_digit :: "char \<Rightarrow> bool" where
  "is_digit c = (c \<in> set ''0123456789'')"

definition digit_val :: "char \<Rightarrow> nat" where
  "digit_val c = of_char c - 48"

fun int_literal_ok :: "bool \<Rightarrow> string \<Rightarrow> bool" where
  "int_literal_ok prev [] = prev"
| "int_literal_ok prev (c # cs) =
     (if is_digit c then int_literal_ok True cs
      else if c = CHR ''_'' then prev \<and> int_literal_ok False cs
      else False)"

definition digits_value :: "string \<Rightarrow> nat" where
  "digits_value s = foldl (\<lambda>acc c. 10 * acc + digit_val c) 0 (filter is_digit s)"

definition py_int :: "string \<Rightarrow> py_error + int" where
  "py_int s =
     (let t = py_strip s;
          neg = (t \<noteq> [] \<and> hd t = CHR ''-'');
          body = (if t \<noteq> [] \<and> (hd t = CHR ''-'' \<or> hd t = CHR ''+'') then tl t else t)
      in if int_literal_ok False body
         then Inr (if neg then - int (digits_value body) else int (digits_value body))
         else Inl ValueError)"

text \<open>
  The value of \<^verbatim>\<open>pages_list\<close>: the string \<^verbatim>\<open>"all"\<close>, which tabula reads as every
  page, or a list of page numbers.
\<close>

datatype pages = AllPages | PageList "int list"

text \<open>
  The body of the loop of \<^verbatim>\<open>extract_tables\<close> over the pieces of the specification
  (lines 125 to 130 of \<^verbatim>\<open>extract_table.py\<close>, lines 51 to 56 of
  \<^verbatim>\<open>extract_table_a2.py\<close>; the text is the same). The unpacking
  \<^verbatim>\<open>start, end = map(int, ...)\<close> needs two pieces that both parse; a piece that does
  not parse and a wrong number of pieces both raise \<^verbatim>\<open>ValueError\<close>.
  \<^verbatim>\<open>range(start, end + 1)\<close> is the list \<^term>\<open>[start..end']\<close>.
\<close>

definition parse_page_spec :: "string \<Rightarrow> py_error + int list" where
  "parse_page_spec page_spec0 =
     (let page_spec = py_strip page_spec0
      in if CHR ''-'' \<in> set page_spec
         then (case map py_int (split_char (CHR ''-'') page_spec) of
                 [Inr start, Inr end'] \<Rightarrow> Inr [start..end']
               | _ \<Rightarrow> Inl ValueError)
         else (case py_int page_spec of Inl e \<Rightarrow> Inl e | Inr n \<Rightarrow> Inr [n]))"

text \<open>The loop itself, with \<^verbatim>\<open>pages_list\<close> as its accumulator; an exception ends it.\<close>

fun parse_specs :: "string list \<Rightarrow> int list \<Rightarrow> py_error + int list" where
  "parse_specs [] pages_list = Inr pages_list"
| "parse_specs (page_spec # rest) pages_list =
     (case parse_page_spec page_spec of
        Inl e \<Rightarrow> Inl e
      | Inr ps \<Rightarrow> parse_specs rest (pages_list @ ps))"

fun isinstance_str :: "cell \<Rightarrow> bool" where
  "isinstance_str (PyStr s) = True"
| "isinstance_str v = False"

text \<open>
  Lines 119 to 130 of \<^verbatim>\<open>extract_table.py\<close>. The argument is any Python object: the
  script tests \<^verbatim>\<open>isinstance(pages, str)\<close> and splits \<^verbatim>\<open>str(pages)\<close>.
\<close>

definition parse_pages :: "cell \<Rightarrow> py_error + pages" where
  "parse_pages pages =
     (if isinstance_str pages \<and> py_lower (py_str pages) = ''all'' then Inr AllPages
      else (case parse_specs (split_char (CHR '','') (py_str pages)) [] of
              Inl e \<Rightarrow> Inl e
            | Inr pages_list \<Rightarrow> Inr (PageList pages_list)))"

text \<open>
  Lines 45 to 56 of \<^verbatim>\<open>extract_table_a2.py\<close>. This script calls \<^verbatim>\<open>pages.lower()\<close>
  and \<^verbatim>\<open>pages.split(",")\<close> on the argument itself, which raises
  \<^verbatim>\<open>AttributeError\<close> on an object that is not a string.
\<close>

definition parse_pages_a2 :: "cell \<Rightarrow> py_error + pages" where
  "parse_pages_a2 pages =
     (case pages of
        PyStr s \<Rightarrow>
          if py_lower s = ''all'' then Inr AllPages
          else (case parse_specs (split_char (CHR '','') s) [] of
                  Inl e \<Rightarrow> Inl e
                | Inr pages_list \<Rightarrow> Inr (PageList pages_list))
      | _ \<Rightarrow> Inl AttributeError)"

section \<open>The run of a script\<close>

text \<open>
  A run ends in one of three ways: the function returns, \<^verbatim>\<open>sys.exit(n)\<close> raises
  \<^verbatim>\<open>SystemExit\<close>, or another exception is not caught. \<^verbatim>\<open>SystemExit\<close> is not an
  \<^verbatim>\<open>Exception\<close>, so the handlers \<^verbatim>\<open>except Exception\<close> of the scripts let it pass.
\<close>

datatype 'a outcome = Returns 'a | SysExit int | Uncaught py_error

text \<open>
  Writing the downloaded bytes: \<^verbatim>\<open>open\<close> may fail, which leaves no file, and
  \<^verbatim>\<open>f.write\<close> may fail, which leaves the file that \<^verbatim>\<open>open\<close> made.
\<close>

datatype write_result = Written | OpenFailed | WriteFailed

text \<open>
  The file system is the list of the paths that exist; of the paths a run makes, the
  temporary directory, the downloaded file and the output file are tracked. The calls
  of \<^verbatim>\<open>print\<close> are left out.
\<close>

record world =
  paths :: "string list"

text \<open>
  What a run takes from outside the scripts: whether the imports succeeded and whether
  the parent directory of the output could be made, the two steps of the context manager
  \<^verbatim>\<open>tempfile.TemporaryDirectory()\<close> (entering it, which makes a directory and gives
  its name, and leaving it, which is its \<^verbatim>\<open>cleanup\<close>), and the results of \<^verbatim>\<open>requests.get\<close> with
  \<^verbatim>\<open>raise_for_status\<close>, of writing the file, of \<^verbatim>\<open>tabula.read_pdf\<close>, of
  \<^verbatim>\<open>pd.MultiIndex.from_arrays\<close>, of the float formatting, and of \<^verbatim>\<open>pd.concat\<close> followed by \<^verbatim>\<open>to_csv\<close>.
\<close>

record env =
  deps_available :: bool
  mkdir_ok :: bool
  tmp_enter :: "world \<Rightarrow> string \<times> world"
  tmp_cleanup :: "string \<Rightarrow> world \<Rightarrow> world"
  http_get :: "string \<Rightarrow> py_error + string"
  file_write :: "string \<Rightarrow> string \<Rightarrow> write_result"
  tabula_read_pdf :: "string \<Rightarrow> pages \<Rightarrow> py_error + dataframe list"
  mk_multiindex :: "string list list \<Rightarrow> py_error + column_index"
  float_str :: "int \<Rightarrow> string"
  concat_to_csv :: "dataframe list \<Rightarrow> string \<Rightarrow> py_error + unit"

text \<open>The parsed command line (\<^verbatim>\<open>args\<close> in \<^verbatim>\<open>main\<close>).\<close>

record args =
  arg_pdf_url :: string
  arg_pages :: string
  arg_output_csv :: string
  arg_header_rows :: int
  arg_flatten_headers :: bool
  arg_header_sep :: string

text \<open>A path lies under a directory when it is the directory or starts with its name and a slash.\<close>

definition path_under :: "string \<Rightarrow> string \<Rightarrow> bool" where
  "path_under d p = (p = d \<or> take (length d + 1) p = d @ ''/'')"

text \<open>
  The statement \<^verbatim>\<open>with cm as x: body\<close> of Python: the context manager is entered, the
  body runs with the value that entering gave, and the context manager is left after
  the body, both when the body returns and when it raises, \<^verbatim>\<open>SystemExit\<close> included.
  The \<^verbatim>\<open>__exit__\<close> of \<^verbatim>\<open>TemporaryDirectory\<close> returns nothing, so the outcome of the
  body is passed on.
\<close>

definition with_stmt ::
  "(world \<Rightarrow> 'x \<times> world) \<Rightarrow> ('x \<Rightarrow> world \<Rightarrow> world) \<Rightarrow> ('x \<Rightarrow> world \<Rightarrow> 'a outcome \<times> world)
     \<Rightarrow> world \<Rightarrow> 'a outcome \<times> world" where
  "with_stmt enter leave body w =
     (let (x, w1) = enter w;
          (r, w2) = body x w1
      in (r, leave x w2))"

text \<open>
  \<^verbatim>\<open>tempfile.TemporaryDirectory\<close> as the library documents it, for the concrete runs:
  entering makes a directory of a given name, and the cleanup removes the directory and
  all that is under it.
\<close>

definition mkdtemp_at :: "string \<Rightarrow> world \<Rightarrow> string \<times> world" where
  "mkdtemp_at d w = (d, w\<lparr>paths := d # paths w\<rparr>)"

definition rmtree :: "string \<Rightarrow> world \<Rightarrow> world" where
  "rmtree d w = w\<lparr>paths := filter (\<lambda>p. \<not> path_under d p) (paths w)\<rparr>"

text \<open>
  \<^verbatim>\<open>download_pdf\<close> (the same in both scripts): every exception is caught, reported
  and turned into \<^verbatim>\<open>sys.exit(1)\<close>.
\<close>

definition download_pdf :: "env \<Rightarrow> string \<Rightarrow> string \<Rightarrow> world \<Rightarrow> string outcome \<times> world" where
  "download_pdf env url temp_dir w =
     (case http_get env url of
        Inl e \<Rightarrow> (SysExit 1, w)
      | Inr content \<Rightarrow>
          let pdf_path = temp_dir @ ''/temp_pdf.pdf''
          in (case file_write env pdf_path content of
                Written \<Rightarrow> (Returns pdf_path, w\<lparr>paths := pdf_path # paths w\<rparr>)
              | OpenFailed \<Rightarrow> (SysExit 1, w)
              | WriteFailed \<Rightarrow> (SysExit 1, w\<lparr>paths := pdf_path # paths w\<rparr>)))"

text \<open>The loop of \<^verbatim>\<open>extract_tables\<close> over the tables, lines 141 to 146.\<close>

fun process_tables ::
  "env \<Rightarrow> dataframe list \<Rightarrow> int \<Rightarrow> bool \<Rightarrow> string \<Rightarrow> dataframe list
     \<Rightarrow> py_error + dataframe list" where
  "process_tables env [] header_rows flatten_headers header_sep processed_tables =
     Inr processed_tables"
| "process_tables env (df # tables) header_rows flatten_headers header_sep processed_tables =
     (if header_rows \<noteq> 0 \<and> header_rows > 0
      then (case apply_multirow_header (mk_multiindex env) (float_str env) df header_rows flatten_headers
                   header_sep of
              Inl e \<Rightarrow> Inl e
            | Inr df' \<Rightarrow>
                process_tables env tables header_rows flatten_headers header_sep
                  (processed_tables @ [df']))
      else process_tables env tables header_rows flatten_headers header_sep
             (processed_tables @ [df]))"

text \<open>
  \<^verbatim>\<open>extract_tables\<close> of \<^verbatim>\<open>extract_table.py\<close>: an exception of the parsing, of the
  extraction, of the normalization or of the writing is caught and turned into
  \<^verbatim>\<open>sys.exit(1)\<close>, and an empty list of tables exits with 1 as well.
\<close>

definition extract_tables ::
  "env \<Rightarrow> string \<Rightarrow> cell \<Rightarrow> string \<Rightarrow> int \<Rightarrow> bool \<Rightarrow> string \<Rightarrow> world
     \<Rightarrow> unit outcome \<times> world" where
  "extract_tables env pdf_path pages output_csv header_rows flatten_headers header_sep w =
     (case parse_pages pages of
        Inl e \<Rightarrow> (SysExit 1, w)
      | Inr pages_list \<Rightarrow>
          (case tabula_read_pdf env pdf_path pages_list of
             Inl e \<Rightarrow> (SysExit 1, w)
           | Inr tables \<Rightarrow>
               if tables = [] then (SysExit 1, w)
               else (case process_tables env tables header_rows flatten_headers header_sep [] of
                       Inl e \<Rightarrow> (SysExit 1, w)
                     | Inr processed_tables \<Rightarrow>
                         (case concat_to_csv env processed_tables output_csv of
                            Inl e \<Rightarrow> (SysExit 1, w)
                          | Inr u \<Rightarrow> (Returns (), w\<lparr>paths := output_csv # paths w\<rparr>)))))"

text \<open>\<^verbatim>\<open>extract_tables\<close> of \<^verbatim>\<open>extract_table_a2.py\<close>, which has no header options.\<close>

definition extract_tables_a2 ::
  "env \<Rightarrow> string \<Rightarrow> cell \<Rightarrow> string \<Rightarrow> world \<Rightarrow> unit outcome \<times> world" where
  "extract_tables_a2 env pdf_path pages output_csv w =
     (case parse_pages_a2 pages of
        Inl e \<Rightarrow> (SysExit 1, w)
      | Inr pages_list \<Rightarrow>
          (case tabula_read_pdf env pdf_path pages_list of
             Inl e \<Rightarrow> (SysExit 1, w)
           | Inr tables \<Rightarrow>
               if tables = [] then (SysExit 1, w)
               else (case concat_to_csv env tables output_csv of
                       Inl e \<Rightarrow> (SysExit 1, w)
                     | Inr u \<Rightarrow> (Returns (), w\<lparr>paths := output_csv # paths w\<rparr>))))"

text \<open>
  \<^verbatim>\<open>main\<close> of \<^verbatim>\<open>extract_table.py\<close>, after the command line is parsed. The download
  and the extraction are the body of the \<^verbatim>\<open>with\<close> statement.
\<close>

definition main :: "env \<Rightarrow> args \<Rightarrow> world \<Rightarrow> unit outcome \<times> world" where
  "main env args w =
     (if \<not> deps_available env then (SysExit 1, w)
      else if \<not> mkdir_ok env then (Uncaught OSError, w)
      else with_stmt (tmp_enter env) (tmp_cleanup env)
             (\<lambda>temp_dir w1.
                case download_pdf env (arg_pdf_url args) temp_dir w1 of
                  (Returns pdf_path, w2) \<Rightarrow>
                    extract_tables env pdf_path (PyStr (arg_pages args)) (arg_output_csv args)
                      (arg_header_rows args) (arg_flatten_headers args) (arg_header_sep args) w2
                | (SysExit n, w2) \<Rightarrow> (SysExit n, w2)
                | (Uncaught e, w2) \<Rightarrow> (Uncaught e, w2))
             w)"

text \<open>\<^verbatim>\<open>main\<close> of \<^verbatim>\<open>extract_table_a2.py\<close>.\<close>

definition main_a2 :: "env \<Rightarrow> args \<Rightarrow> world \<Rightarrow> unit outcome \<times> world" where
  "main_a2 env args w =
     (if \<not> deps_available env then (SysExit 1, w)
      else if \<not> mkdir_ok env then (Uncaught OSError, w)
      else with_stmt (tmp_enter env) (tmp_cleanup env)
             (\<lambda>temp_dir w1.
                case download_pdf env (arg_pdf_url args) temp_dir w1 of
                  (Returns pdf_path, w2) \<Rightarrow>
                    extract_tables_a2 env pdf_path (PyStr (arg_pages args)) (arg_output_csv args) w2
                | (SysExit n, w2) \<Rightarrow> (SysExit n, w2)
                | (Uncaught e, w2) \<Rightarrow> (Uncaught e, w2))
             w)"

section \<open>The page specification as the specification words it\<close>

text \<open>
  A specification is a sequence of tokens separated by commas. A token is a single page
  number or a range of two page numbers with a hyphen between them, and it may stand
  between whitespace. Its pages are the single page, or the pages of the inclusive
  range. These definitions follow the words of the specification; the parser above is
  compared with them.
\<close>

datatype page_token = Single nat | Range nat nat

fun spec_token_text :: "page_token \<Rightarrow> string" where
  "spec_token_text (Single n) = str_nat n"
| "spec_token_text (Range a b) = str_nat a @ ''-'' @ str_nat b"

fun spec_token_pages :: "page_token \<Rightarrow> int list" where
  "spec_token_pages (Single n) = [int n]"
| "spec_token_pages (Range a b) = [int a..int b]"

fun spec_piece :: "string \<times> page_token \<times> string \<Rightarrow> string" where
  "spec_piece (l, t, r) = l @ spec_token_text t @ r"

fun spec_padding_ok :: "string \<times> page_token \<times> string \<Rightarrow> bool" where
  "spec_padding_ok (l, t, r) = (list_all is_space l \<and> list_all is_space r)"

definition spec_render :: "(string \<times> page_token \<times> string) list \<Rightarrow> string" where
  "spec_render toks = str_join '','' (map spec_piece toks)"

definition spec_expand :: "(string \<times> page_token \<times> string) list \<Rightarrow> int list" where
  "spec_expand toks = concat (map (\<lambda>(l, t, r). spec_token_pages t) toks)"

section \<open>Example inputs\<close>

text \<open>
  The table of the example in the specification: two header rows, \<^verbatim>\<open>["A", "", "B"]\<close>
  and \<^verbatim>\<open>["x", "y", "z"]\<close>, and one data row.
\<close>

definition spec_example :: dataframe where
  "spec_example =
     \<lparr>columns = Index [''c0'', ''c1'', ''c2''], dtypes = [Object, Object, Object],
      rows = [[PyStr ''A'', PyStr '''', PyStr ''B''],
              [PyStr ''x'', PyStr ''y'', PyStr ''z''],
              [PyInt 1, PyInt 2, PyNaN]]\<rparr>"

text \<open>The same table as tabula delivers it, with NaN for the empty header cell.\<close>

definition spec_example_nan :: dataframe where
  "spec_example_nan =
     \<lparr>columns = Index [''c0'', ''c1'', ''c2''], dtypes = [Object, Object, Object],
      rows = [[PyStr ''A'', PyNaN, PyStr ''B''],
              [PyStr ''x'', PyStr ''y'', PyStr ''z''],
              [PyInt 1, PyInt 2, PyNaN]]\<rparr>"

text \<open>A table whose column 2 is empty in both header rows.\<close>

definition blank_column_example :: dataframe where
  "blank_column_example =
     \<lparr>columns = Index [''c0'', ''c1'', ''c2''], dtypes = [Object, Object, Object],
      rows = [[PyStr ''A'', PyStr ''B'', PyNaN],
              [PyStr ''x'', PyNone, PyStr '' ''],
              [PyInt 1, PyInt 2, PyInt 3]]\<rparr>"

text \<open>
  A table of numbers: the first column is \<^verbatim>\<open>int64\<close>, the second holds only NaN and is
  \<^verbatim>\<open>float64\<close>, so that the values of its rows are floats.
\<close>

definition numeric_example :: dataframe where
  "numeric_example =
     \<lparr>columns = Index [''c0'', ''c1''], dtypes = [Int64, Float64],
      rows = [[PyInt 2020, PyNaN], [PyInt 1, PyNaN]]\<rparr>"

text \<open>A run in which the download succeeds and tabula finds the example table.\<close>

definition demo_env :: env where
  "demo_env =
     \<lparr>deps_available = True, mkdir_ok = True, tmp_enter = mkdtemp_at ''/tmp/tmpab12'', tmp_cleanup = rmtree,
      http_get = (\<lambda>url. Inr ''%PDF''), file_write = (\<lambda>p c. Written),
      tabula_read_pdf = (\<lambda>p pg. Inr [spec_example]),
      mk_multiindex = MultiIndex_from_arrays, float_str = float_str_small,
      concat_to_csv = (\<lambda>ts p. Inr ())\<rparr>"

definition demo_args :: args where
  "demo_args =
     \<lparr>arg_pdf_url = ''http://host/x.pdf'', arg_pages = ''1,3'', arg_output_csv = ''out.csv'',
      arg_header_rows = 2, arg_flatten_headers = True, arg_header_sep = '' - ''\<rparr>"

section \<open>Properties of cell cleaning\<close>

lemma py_strip_no_outer_space:
  "py_strip s = [] \<or> (\<not> is_space (hd (py_strip s)) \<and> \<not> is_space (last (py_strip s)))"
proof (cases "py_strip s = []")
  case True
  then show ?thesis by simp
next
  case False
  define t where "t = dropWhile is_space s"
  define u where "u = dropWhile is_space (rev t)"
  have u_ne: "u \<noteq> []" using False by (simp add: py_strip_def t_def u_def)
  have strip: "py_strip s = rev u" by (simp add: py_strip_def t_def u_def)
  have hd_u: "\<not> is_space (hd u)" using u_ne unfolding u_def by (rule hd_dropWhile)
  have "rev t \<noteq> []" using u_ne by (auto simp: u_def)
  then have t_ne: "t \<noteq> []" by simp
  have hd_t: "\<not> is_space (hd t)" using t_ne unfolding t_def by (rule hd_dropWhile)
  have "last u = last (rev t)" using u_ne unfolding u_def
    by (metis takeWhile_dropWhile_id last_appendR)
  then have last_u: "\<not> is_space (last u)" using hd_t t_ne by (simp add: last_rev)
  show ?thesis using u_ne hd_u last_u by (simp add: strip hd_rev last_rev)
qed

lemma length_normalize_header_values [simp]:
  "length (normalize_header_values vs) = length vs"
  by (induction vs) (simp_all add: Let_def)

lemma normalize_header_values_nth:
  "i < length vs \<Longrightarrow>
   normalize_header_values vs ! i =
     (let s = py_strip (if vs ! i = PyNone then '''' else py_str (vs ! i))
      in if py_lower s \<in> set [''nan'', ''none''] then '''' else s)"
proof (induction vs arbitrary: i)
  case Nil
  then show ?case by simp
next
  case (Cons v vs)
  show ?case
  proof (cases i)
    case 0
    then show ?thesis by (simp add: Let_def)
  next
    case (Suc j)
    with Cons.prems have "j < length vs" by simp
    from Cons.IH [OF this] show ?thesis using Suc by (simp add: Let_def)
  qed
qed

lemma py_strip_Nil [simp]: "py_strip [] = []"
  by (simp add: py_strip_def)

text \<open>
  C5 (amended). Every header cell is cleaned to a string without leading or trailing
  whitespace. The cleaned string is empty exactly when the cell is \<^verbatim>\<open>None\<close>, or
  its string form is empty or all whitespace, or the lower-case form of its stripped
  string form is \<^verbatim>\<open>nan\<close> or \<^verbatim>\<open>none\<close> (which covers NaN); otherwise it is the
  stripped string form of the cell.
\<close>

theorem normalize_header_values_clean:
  assumes "i < length vs"
  shows "(normalize_header_values vs ! i = [] \<or>
          (\<not> is_space (hd (normalize_header_values vs ! i)) \<and>
           \<not> is_space (last (normalize_header_values vs ! i)))) \<and>
         (normalize_header_values vs ! i = [] \<longleftrightarrow>
            (vs ! i = PyNone \<or> py_strip (py_str (vs ! i)) = [] \<or>
             py_lower (py_strip (py_str (vs ! i))) \<in> set [''nan'', ''none''])) \<and>
         (normalize_header_values vs ! i \<noteq> [] \<longrightarrow>
            normalize_header_values vs ! i = py_strip (py_str (vs ! i)))"
proof -
  let ?s = "py_strip (if vs ! i = PyNone then '''' else py_str (vs ! i))"
  have r: "normalize_header_values vs ! i =
             (if py_lower ?s \<in> set [''nan'', ''none''] then '''' else ?s)"
    using normalize_header_values_nth [OF assms] by (simp add: Let_def)
  show ?thesis
  proof (cases "vs ! i = PyNone")
    case True
    then show ?thesis using r by (simp add: py_lower_def)
  next
    case False
    then have r': "normalize_header_values vs ! i =
        (if py_lower (py_strip (py_str (vs ! i))) \<in> set [''nan'', ''none''] then ''''
         else py_strip (py_str (vs ! i)))"
      using r by simp
    show ?thesis
      using py_strip_no_outer_space [of "py_str (vs ! i)"] False
      by (auto simp: r')
  qed
qed

theorem normalize_header_values_clean_witness:
  "0 < length [PyStr '' Total '', PyNaN] \<and>
   (normalize_header_values [PyStr '' Total '', PyNaN] ! 0 = [] \<or>
    (\<not> is_space (hd (normalize_header_values [PyStr '' Total '', PyNaN] ! 0)) \<and>
     \<not> is_space (last (normalize_header_values [PyStr '' Total '', PyNaN] ! 0)))) \<and>
   (normalize_header_values [PyStr '' Total '', PyNaN] ! 0 = [] \<longleftrightarrow>
      ([PyStr '' Total '', PyNaN] ! 0 = PyNone \<or>
       py_strip (py_str ([PyStr '' Total '', PyNaN] ! 0)) = [] \<or>
       py_lower (py_strip (py_str ([PyStr '' Total '', PyNaN] ! 0))) \<in> set [''nan'', ''none''])) \<and>
   normalize_header_values [PyStr '' Total '', PyNaN] ! 0 \<noteq> [] \<and>
   normalize_header_values [PyStr '' Total '', PyNaN] ! 0 =
     py_strip (py_str ([PyStr '' Total '', PyNaN] ! 0))"
proof -
  have h: "0 < length [PyStr '' Total '', PyNaN]" by simp
  have ne: "normalize_header_values [PyStr '' Total '', PyNaN] ! 0 \<noteq> []"
    by (simp add: Let_def py_strip_def is_space_def py_lower_def lower_char_def)
  from normalize_header_values_clean [OF h] h ne show ?thesis by blast
qed

text \<open>
  C5 as it was stated (empty exactly when the cell is null or missing, or its stripped
  lower-case form is \<^verbatim>\<open>nan\<close> or \<^verbatim>\<open>none\<close>) fails on a cell that holds a single
  space: the cell is a string, its stripped form is neither token, and it is cleaned to
  the empty string.
\<close>

theorem normalize_header_values_blank_counterexample:
  "normalize_header_values [PyStr '' ''] = [''''] \<and>
   PyStr '' '' \<noteq> PyNone \<and> PyStr '' '' \<noteq> PyNaN \<and>
   py_lower (py_strip (py_str (PyStr '' ''))) \<notin> set [''nan'', ''none'']"
  by (simp add: Let_def py_strip_def is_space_def py_lower_def)

section \<open>Properties of the header normalizer\<close>

lemma ffill_from_str [simp]: "ffill_from (\<lambda>s. pd_isna (PyStr s)) prev xs = xs"
  by (induction xs arbitrary: prev) simp_all

lemma ffill_from_never [simp]: "ffill_from (\<lambda>s. False) prev xs = xs"
  by (induction xs arbitrary: prev) simp_all

lemma header_arrays_eq:
  assumes "k \<le> length (rows df)"
  shows "header_arrays fs df k =
           map (\<lambda>r. let arr = normalize_header_values
                                 (map (astype fs (common_dtype (dtypes df))) r)
                     in if length arr < shape1 df
                        then arr @ replicate (shape1 df - length arr) []
                        else take (shape1 df) arr)
               (take k (rows df))"
proof -
  define hs where
    "hs = map normalize_header_values (frame_values fs (dtypes df) (take k (rows df)))"
  have len: "length hs = k" using assms by (simp add: hs_def frame_values_def)
  have fill: "map (ffill_from (\<lambda>s. pd_isna (PyStr s)) None) hs = hs"
    by (simp add: map_idI)
  have nth: "map (\<lambda>i. hs ! i) [0..<k] = hs"
    using map_nth [of hs] len by simp
  have "header_arrays fs df k =
          map (\<lambda>arr. if length arr < shape1 df
                      then arr @ replicate (shape1 df - length arr) []
                      else take (shape1 df) arr) hs"
    unfolding header_arrays_def Let_def hs_def [symmetric] fill nth ..
  then show ?thesis by (simp add: hs_def frame_values_def Let_def comp_def)
qed

lemma length_header_arrays: "k \<le> length (rows df) \<Longrightarrow> length (header_arrays fs df k) = k"
  by (simp add: header_arrays_eq)

lemma header_arrays_nth:
  "k \<le> length (rows df) \<Longrightarrow> level < k \<Longrightarrow>
   header_arrays fs df k ! level =
     (let arr = normalize_header_values
                  (map (astype fs (common_dtype (dtypes df))) (rows df ! level))
      in if length arr < shape1 df then arr @ replicate (shape1 df - length arr) ''''
         else take (shape1 df) arr)"
  by (simp add: header_arrays_eq)

lemma length_header_arrays_nth:
  "k \<le> length (rows df) \<Longrightarrow> level < k \<Longrightarrow> length (header_arrays fs df k ! level) = shape1 df"
  by (simp add: header_arrays_nth Let_def)

lemma length_flat_cols [simp]: "length (flat_cols arrays k n sep) = n"
  by (simp add: flat_cols_def)

lemma set_columns_flat:
  "set_columns (df\<lparr>rows := rs\<rparr>) (Index (flat_cols arrays k (shape1 df) sep)) =
     Inr \<lparr>columns = Index (flat_cols arrays k (shape1 df) sep), dtypes = dtypes df, rows = rs\<rparr>"
  by (simp add: set_columns_def shape1_def)

lemma apply_flatten:
  assumes "0 < header_rows" "header_rows \<le> int (length (rows df))"
  shows "apply_multirow_header fa fs df header_rows True sep =
           Inr \<lparr>columns = Index (flat_cols (header_arrays fs df (nat header_rows)) (nat header_rows)
                                   (shape1 df) sep),
                dtypes = dtypes df, rows = drop (nat header_rows) (rows df)\<rparr>"
  using assms by (simp add: apply_multirow_header_def Let_def set_columns_flat)

lemma apply_no_flatten:
  assumes "0 < header_rows" "header_rows \<le> int (length (rows df))"
  shows "apply_multirow_header fa fs df header_rows False sep =
           (case fa (header_arrays fs df (nat header_rows)) of
              Inr idx \<Rightarrow>
                if index_len idx = shape1 df
                then Inr \<lparr>columns = idx, dtypes = dtypes df, rows = drop (nat header_rows) (rows df)\<rparr>
                else apply_multirow_header fa fs df header_rows True sep
            | Inl e \<Rightarrow> apply_multirow_header fa fs df header_rows True sep)"
proof -
  have g: "\<not> header_rows \<le> 0" "\<not> int (length (rows df)) < header_rows"
    using assms by simp_all
  show ?thesis
    unfolding apply_flatten [OF assms]
    by (simp add: apply_multirow_header_def g Let_def set_columns_flat set_columns_def shape1_def
             split: sum.splits)
qed

lemma header_arrays_all_len:
  "k \<le> length (rows df) \<Longrightarrow> list_all (\<lambda>arr. length arr = shape1 df) (header_arrays fs df k)"
  by (simp add: list_all_length length_header_arrays length_header_arrays_nth)

lemma from_arrays_header_arrays:
  assumes "0 < k" "k \<le> length (rows df)"
  shows "MultiIndex_from_arrays (header_arrays fs df k) = Inr (MultiIndex (header_arrays fs df k)) \<and>
         index_len (MultiIndex (header_arrays fs df k)) = shape1 df"
proof -
  obtain a as where ha: "header_arrays fs df k = a # as"
    using assms length_header_arrays [of k df fs] by (cases "header_arrays fs df k") auto
  have all: "list_all (\<lambda>arr. length arr = shape1 df) (a # as)"
    using header_arrays_all_len [of k df fs] assms ha by simp
  then have "length a = shape1 df" by simp
  with all show ?thesis by (simp add: MultiIndex_from_arrays_def ha)
qed

lemma flat_cols_nth:
  assumes "i < n" "length arrays = k"
  shows "flat_cols arrays k n sep ! i =
           (let parts = filter (\<lambda>p. p \<noteq> []) (map (\<lambda>arr. arr ! i) arrays)
            in if parts = [] then ''col_'' @ str_nat i else str_join sep parts)"
proof -
  have "map (\<lambda>level. arrays ! level ! i) [0..<k] = map (\<lambda>arr. arr ! i) (map (\<lambda>level. arrays ! level) [0..<k])"
    by (simp add: comp_def)
  also have "map (\<lambda>level. arrays ! level) [0..<k] = arrays"
    using assms(2) map_nth [of arrays] by simp
  finally have "map (\<lambda>level. arrays ! level ! i) [0..<k] = map (\<lambda>arr. arr ! i) arrays" .
  then show ?thesis using assms(1) by (simp add: flat_cols_def Let_def)
qed

text \<open>
  C3. When \<^verbatim>\<open>header_rows\<close> is zero or negative, or the table has fewer rows than
  \<^verbatim>\<open>header_rows\<close>, the normalizer returns the table it was given and raises nothing,
  whatever the other arguments are.
\<close>

theorem pass_through:
  assumes "header_rows \<le> 0 \<or> int (length (rows df)) < header_rows"
  shows "apply_multirow_header fa fs df header_rows flatten sep = Inr df"
  using assms by (auto simp: apply_multirow_header_def)

theorem pass_through_witness:
  "((0::int) \<le> 0 \<or> int (length (rows spec_example)) < 0) \<and>
   apply_multirow_header MultiIndex_from_arrays float_str_small spec_example 0 True '' | '' = Inr spec_example \<and>
   ((5::int) \<le> 0 \<or> int (length (rows spec_example)) < 5) \<and>
   apply_multirow_header MultiIndex_from_arrays float_str_small spec_example 5 False '' | '' = Inr spec_example"
proof -
  have h0: "(0::int) \<le> 0 \<or> int (length (rows spec_example)) < 0" by simp
  have h5: "(5::int) \<le> 0 \<or> int (length (rows spec_example)) < 5"
    by (simp add: spec_example_def)
  from pass_through [OF h0] pass_through [OF h5] h0 h5 show ?thesis by blast
qed

text \<open>
  C8. When the table has at least \<^verbatim>\<open>header_rows > 0\<close> rows, the normalizer returns a
  frame whose rows are the rows of the input from index \<^verbatim>\<open>header_rows\<close> on, in the
  same order and with the same cells; only the columns may differ. This holds with and
  without flattening and for any behaviour of the \<^verbatim>\<open>MultiIndex\<close> constructor.
\<close>

theorem data_rows_kept:
  assumes "0 < header_rows" "header_rows \<le> int (length (rows df))"
  shows "\<exists>cols. apply_multirow_header fa fs df header_rows flatten sep =
           Inr \<lparr>columns = cols, dtypes = dtypes df, rows = drop (nat header_rows) (rows df)\<rparr>"
proof (cases flatten)
  case True
  then show ?thesis using apply_flatten [OF assms] by simp
next
  case False
  then show ?thesis
    using apply_no_flatten [OF assms, of fa fs sep] apply_flatten [OF assms, of fa fs sep]
    by (auto split: sum.splits)
qed

theorem data_rows_kept_witness:
  "(0::int) < 2 \<and> 2 \<le> int (length (rows spec_example)) \<and>
   (\<exists>cols. apply_multirow_header MultiIndex_from_arrays float_str_small spec_example 2 False '' - '' =
      Inr \<lparr>columns = cols, dtypes = dtypes spec_example, rows = drop (nat 2) (rows spec_example)\<rparr>)"
proof -
  have h1: "(0::int) < 2" by simp
  have h2: "2 \<le> int (length (rows spec_example))" by (simp add: spec_example_def)
  from data_rows_kept [OF h1 h2] h1 h2 show ?thesis by blast
qed

text \<open>
  C6. When \<^verbatim>\<open>flatten\<close> is false and the construction of the \<^verbatim>\<open>MultiIndex\<close> raises,
  the normalizer raises nothing: it returns what it returns for \<^verbatim>\<open>flatten\<close> true, the
  flattened labels over the same data rows.
\<close>

theorem fallback_flatten:
  assumes "0 < header_rows" "header_rows \<le> int (length (rows df))"
    and "fa (header_arrays fs df (nat header_rows)) = Inl e"
  shows "apply_multirow_header fa fs df header_rows False sep =
           apply_multirow_header fa fs df header_rows True sep \<and>
         apply_multirow_header fa fs df header_rows False sep =
           Inr \<lparr>columns = Index (flat_cols (header_arrays fs df (nat header_rows)) (nat header_rows)
                                   (shape1 df) sep),
                dtypes = dtypes df, rows = drop (nat header_rows) (rows df)\<rparr>"
  using assms apply_no_flatten [of header_rows df fa fs sep] apply_flatten [of header_rows df fa fs sep]
  by simp

theorem fallback_flatten_witness:
  "(0::int) < 2 \<and> 2 \<le> int (length (rows spec_example)) \<and>
   apply_multirow_header (\<lambda>arrays. Inl TypeError) float_str_small spec_example 2 False '' - '' =
     apply_multirow_header (\<lambda>arrays. Inl TypeError) float_str_small spec_example 2 True '' - '' \<and>
   apply_multirow_header (\<lambda>arrays. Inl TypeError) float_str_small spec_example 2 False '' - '' =
     Inr \<lparr>columns = Index (flat_cols (header_arrays float_str_small spec_example (nat 2)) (nat 2)
                             (shape1 spec_example) '' - ''),
          dtypes = dtypes spec_example, rows = drop (nat 2) (rows spec_example)\<rparr>"
proof -
  have h1: "(0::int) < 2" by simp
  have h2: "2 \<le> int (length (rows spec_example))" by (simp add: spec_example_def)
  have h3: "(\<lambda>arrays :: string list list. Inl TypeError :: py_error + column_index)
              (header_arrays float_str_small spec_example (nat 2)) = Inl TypeError"
    by simp
  from fallback_flatten [where fa = "\<lambda>arrays. Inl TypeError" and e = TypeError
      and sep = "'' - ''", OF h1 h2 h3] h1 h2
  show ?thesis by blast
qed

text \<open>
  C2. When the table has at least \<^verbatim>\<open>header_rows > 0\<close> rows and \<^verbatim>\<open>flatten\<close> is true,
  the normalizer returns a flat index with one label per column. The label of column
  \<^verbatim>\<open>i\<close> is built from the fragments of that column, one from each header level from
  top to bottom: the fragments that are not empty are joined with the separator, and
  when every fragment is empty the label is \<^verbatim>\<open>col_\<close> followed by \<^verbatim>\<open>i\<close> in decimal.
  The fragments are the entries \<^verbatim>\<open>arrays[level][i]\<close> of the code, made from the values
  of the header block; in a frame of numbers with a \<^verbatim>\<open>float64\<close> column these values
  are floats, so that the header cell 2020 gives the fragment \<^verbatim>\<open>2020.0\<close>.
\<close>

theorem flatten_labels:
  assumes "0 < header_rows" "header_rows \<le> int (length (rows df))"
  shows "\<exists>labels.
           apply_multirow_header fa fs df header_rows True sep =
             Inr \<lparr>columns = Index labels, dtypes = dtypes df, rows = drop (nat header_rows) (rows df)\<rparr> \<and>
           length labels = shape1 df \<and>
           (\<forall>i<shape1 df.
              labels ! i =
                (let fragments = map (\<lambda>arr. arr ! i) (header_arrays fs df (nat header_rows));
                     parts = filter (\<lambda>p. p \<noteq> '''') fragments
                 in if parts = [] then ''col_'' @ str_nat i else str_join sep parts))"
proof -
  have k: "nat header_rows \<le> length (rows df)" using assms by simp
  show ?thesis
    using apply_flatten [OF assms, of fa fs sep] length_header_arrays [OF k]
    by (simp add: flat_cols_nth Let_def)
qed

theorem flatten_labels_witness:
  "(0::int) < 2 \<and> 2 \<le> int (length (rows blank_column_example)) \<and>
   (\<exists>labels.
      apply_multirow_header MultiIndex_from_arrays float_str_small blank_column_example 2 True
          '' - '' =
        Inr \<lparr>columns = Index labels, dtypes = dtypes blank_column_example,
             rows = drop (nat 2) (rows blank_column_example)\<rparr> \<and>
      length labels = shape1 blank_column_example \<and>
      (\<forall>i<shape1 blank_column_example.
         labels ! i =
           (let fragments = map (\<lambda>arr. arr ! i)
                              (header_arrays float_str_small blank_column_example (nat 2));
                parts = filter (\<lambda>p. p \<noteq> '''') fragments
            in if parts = [] then ''col_'' @ str_nat i else str_join '' - '' parts))) \<and>
   apply_multirow_header MultiIndex_from_arrays float_str_small blank_column_example 2 True
       '' - '' =
     Inr \<lparr>columns = Index [''A - x'', ''B'', ''col_2''],
          dtypes = [Object, Object, Object], rows = [[PyInt 1, PyInt 2, PyInt 3]]\<rparr> \<and>
   (0::int) < 1 \<and> 1 \<le> int (length (rows numeric_example)) \<and>
   (\<exists>labels.
      apply_multirow_header MultiIndex_from_arrays float_str_small numeric_example 1 True
          '' - '' =
        Inr \<lparr>columns = Index labels, dtypes = dtypes numeric_example,
             rows = drop (nat 1) (rows numeric_example)\<rparr> \<and>
      length labels = shape1 numeric_example \<and>
      (\<forall>i<shape1 numeric_example.
         labels ! i =
           (let fragments = map (\<lambda>arr. arr ! i)
                              (header_arrays float_str_small numeric_example (nat 1));
                parts = filter (\<lambda>p. p \<noteq> '''') fragments
            in if parts = [] then ''col_'' @ str_nat i else str_join '' - '' parts))) \<and>
   header_arrays float_str_small numeric_example (nat 1) = [[''2020.0'', '''']] \<and>
   apply_multirow_header MultiIndex_from_arrays float_str_small numeric_example 1 True '' - '' =
     Inr \<lparr>columns = Index [''2020.0'', ''col_1''],
          dtypes = [Int64, Float64], rows = [[PyInt 1, PyNaN]]\<rparr>"
proof -
  have h1: "(0::int) < 2" by simp
  have h2: "2 \<le> int (length (rows blank_column_example))"
    by (simp add: blank_column_example_def)
  have ev: "apply_multirow_header MultiIndex_from_arrays float_str_small blank_column_example 2
              True '' - '' =
     Inr \<lparr>columns = Index [''A - x'', ''B'', ''col_2''],
          dtypes = [Object, Object, Object], rows = [[PyInt 1, PyInt 2, PyInt 3]]\<rparr>"
    by (simp add: apply_multirow_header_def blank_column_example_def header_arrays_def
          frame_values_def common_dtype_def flat_cols_def set_columns_def shape1_def Let_def
          py_strip_def is_space_def py_lower_def lower_char_def upt_rec numeral_nat
          str_nat.simps)
  have n1: "(0::int) < 1" by simp
  have n2: "1 \<le> int (length (rows numeric_example))"
    by (simp add: numeric_example_def)
  have arr: "header_arrays float_str_small numeric_example (nat 1) = [[''2020.0'', '''']]"
    by (simp add: numeric_example_def header_arrays_def frame_values_def common_dtype_def
          shape1_def Let_def float_str_small_def str_int_def py_strip_def is_space_def
          py_lower_def lower_char_def str_nat.simps)
  have evn: "apply_multirow_header MultiIndex_from_arrays float_str_small numeric_example 1
               True '' - '' =
     Inr \<lparr>columns = Index [''2020.0'', ''col_1''],
          dtypes = [Int64, Float64], rows = [[PyInt 1, PyNaN]]\<rparr>"
    by (simp add: apply_multirow_header_def Let_def arr [simplified])
       (simp add: numeric_example_def flat_cols_def set_columns_def shape1_def Let_def
          upt_rec str_nat.simps)
  from flatten_labels [OF h1 h2, where fa = MultiIndex_from_arrays and sep = "'' - ''"
      and fs = float_str_small]
    flatten_labels [OF n1 n2, where fa = MultiIndex_from_arrays and sep = "'' - ''"
      and fs = float_str_small]
    h1 h2 ev n1 n2 arr evn
  show ?thesis by blast
qed

text \<open>
  C4. When the table has at least \<^verbatim>\<open>header_rows > 0\<close> rows, whatever the lengths of
  its header rows are: there is one label sequence per header row, each of them has
  exactly \<^verbatim>\<open>df.shape[1]\<close> entries, and it is a sequence as long as the header row, cut
  at that length or padded on the right with empty strings. The flattened labels have
  that length as well, the levels of the \<^verbatim>\<open>MultiIndex\<close> are these sequences, and the
  returned frame has as many columns as the input.
\<close>

theorem label_lengths:
  assumes "0 < header_rows" "header_rows \<le> int (length (rows df))"
  shows "length (header_arrays fs df (nat header_rows)) = nat header_rows \<and>
         (\<forall>level<nat header_rows.
            length (header_arrays fs df (nat header_rows) ! level) = shape1 df \<and>
            (\<exists>c. length c = length (rows df ! level) \<and>
                 header_arrays fs df (nat header_rows) ! level =
                   take (shape1 df) c @ replicate (shape1 df - length c) '''')) \<and>
         (\<exists>labels.
            apply_multirow_header fa fs df header_rows True sep =
              Inr \<lparr>columns = Index labels, dtypes = dtypes df, rows = drop (nat header_rows) (rows df)\<rparr> \<and>
            length labels = shape1 df) \<and>
         apply_multirow_header MultiIndex_from_arrays fs df header_rows False sep =
           Inr \<lparr>columns = MultiIndex (header_arrays fs df (nat header_rows)),
                dtypes = dtypes df, rows = drop (nat header_rows) (rows df)\<rparr> \<and>
         (\<exists>d. apply_multirow_header fa fs df header_rows flatten sep = Inr d \<and>
              shape1 d = shape1 df)"
proof -
  let ?k = "nat header_rows"
  have k: "?k \<le> length (rows df)" and k0: "0 < ?k" using assms by simp_all
  have c1: "length (header_arrays fs df ?k) = ?k" by (rule length_header_arrays [OF k])
  have c2: "\<forall>level<?k.
            length (header_arrays fs df ?k ! level) = shape1 df \<and>
            (\<exists>c. length c = length (rows df ! level) \<and>
                 header_arrays fs df ?k ! level =
                   take (shape1 df) c @ replicate (shape1 df - length c) '''')"
  proof (intro allI impI conjI)
    fix level assume l: "level < ?k"
    show "length (header_arrays fs df ?k ! level) = shape1 df"
      by (rule length_header_arrays_nth [OF k l])
    let ?c = "normalize_header_values
                (map (astype fs (common_dtype (dtypes df))) (rows df ! level))"
    have "header_arrays fs df ?k ! level =
            take (shape1 df) ?c @ replicate (shape1 df - length ?c) ''''"
      by (simp add: header_arrays_nth [OF k l] Let_def)
    then show "\<exists>c. length c = length (rows df ! level) \<and>
                 header_arrays fs df ?k ! level =
                   take (shape1 df) c @ replicate (shape1 df - length c) ''''"
      by (intro exI [of _ ?c]) simp
  qed
  have c3: "\<exists>labels.
            apply_multirow_header fa fs df header_rows True sep =
              Inr \<lparr>columns = Index labels, dtypes = dtypes df, rows = drop ?k (rows df)\<rparr> \<and>
            length labels = shape1 df"
    using apply_flatten [OF assms, of fa fs sep] by simp
  have c4: "apply_multirow_header MultiIndex_from_arrays fs df header_rows False sep =
           Inr \<lparr>columns = MultiIndex (header_arrays fs df ?k), dtypes = dtypes df, rows = drop ?k (rows df)\<rparr>"
    using apply_no_flatten [OF assms, of MultiIndex_from_arrays fs sep]
      from_arrays_header_arrays [OF k0 k, of fs]
    by simp
  have flat: "\<exists>d. apply_multirow_header fa fs df header_rows True sep = Inr d \<and>
              shape1 d = shape1 df"
    using apply_flatten [OF assms, of fa fs sep] by (simp add: shape1_def)
  have c5: "\<exists>d. apply_multirow_header fa fs df header_rows flatten sep = Inr d \<and>
              shape1 d = shape1 df"
  proof (cases flatten)
    case True
    then show ?thesis using flat by simp
  next
    case False
    show ?thesis
      using flat apply_no_flatten [OF assms, of fa fs sep] False
      by (auto simp: shape1_def split: sum.splits)
  qed
  from c1 c2 c3 c4 c5 show ?thesis by blast
qed

theorem label_lengths_witness:
  "(0::int) < 2 \<and> 2 \<le> int (length (rows spec_example)) \<and>
   length (header_arrays float_str_small spec_example (nat 2)) = nat 2 \<and>
   length (header_arrays float_str_small spec_example (nat 2) ! 0) = shape1 spec_example \<and>
   length (header_arrays float_str_small spec_example (nat 2) ! 1) = shape1 spec_example \<and>
   (\<exists>labels.
      apply_multirow_header MultiIndex_from_arrays float_str_small spec_example 2 True '' - '' =
        Inr \<lparr>columns = Index labels, dtypes = dtypes spec_example, rows = drop (nat 2) (rows spec_example)\<rparr> \<and>
      length labels = shape1 spec_example) \<and>
   apply_multirow_header MultiIndex_from_arrays float_str_small spec_example 2 False '' - '' =
     Inr \<lparr>columns = MultiIndex (header_arrays float_str_small spec_example (nat 2)),
          dtypes = dtypes spec_example, rows = drop (nat 2) (rows spec_example)\<rparr> \<and>
   (\<exists>d. apply_multirow_header MultiIndex_from_arrays float_str_small spec_example 2 False '' - '' = Inr d \<and>
        shape1 d = shape1 spec_example)"
proof -
  have h1: "(0::int) < 2" by simp
  have h2: "2 \<le> int (length (rows spec_example))" by (simp add: spec_example_def)
  have l0: "0 < nat 2" and l1: "1 < nat 2" by simp_all
  from label_lengths [OF h1 h2, where fa = MultiIndex_from_arrays and flatten = False
      and sep = "'' - ''"] h1 h2 l0 l1
  show ?thesis by blast
qed

text \<open>
  C1. The specification and the comment at line 78 of \<^verbatim>\<open>extract_table.py\<close> ask for a
  horizontal fill of the cleaned header rows. The code calls \<^verbatim>\<open>ffill\<close> after the
  cleaning has replaced every missing cell by the empty string, which pandas does not
  count as missing, so nothing is filled. On the example of the specification, with
  the empty header cell given as an empty string or as NaN, the code labels the columns
  \<^verbatim>\<open>A - x\<close>, \<^verbatim>\<open>y\<close>, \<^verbatim>\<open>B - z\<close>, where the specification expects \<^verbatim>\<open>A - x\<close>,
  \<^verbatim>\<open>A - y\<close>, \<^verbatim>\<open>B - z\<close>; the first header row stays \<^verbatim>\<open>A\<close>, empty, \<^verbatim>\<open>B\<close>.
\<close>

theorem spec_example_not_filled:
  "apply_multirow_header MultiIndex_from_arrays float_str_small spec_example 2 True '' - '' =
     Inr \<lparr>columns = Index [''A - x'', ''y'', ''B - z''], dtypes = [Object, Object, Object], rows = [[PyInt 1, PyInt 2, PyNaN]]\<rparr> \<and>
   apply_multirow_header MultiIndex_from_arrays float_str_small spec_example_nan 2 True '' - '' =
     Inr \<lparr>columns = Index [''A - x'', ''y'', ''B - z''], dtypes = [Object, Object, Object], rows = [[PyInt 1, PyInt 2, PyNaN]]\<rparr> \<and>
   header_arrays float_str_small spec_example 2 = [[''A'', '''', ''B''], [''x'', ''y'', ''z'']] \<and>
   header_arrays float_str_small spec_example_nan 2 = [[''A'', '''', ''B''], [''x'', ''y'', ''z'']]"
  by (simp add: apply_multirow_header_def spec_example_def spec_example_nan_def header_arrays_def frame_values_def common_dtype_def
        flat_cols_def set_columns_def shape1_def Let_def py_strip_def is_space_def py_lower_def
        lower_char_def upt_rec numeral_nat str_nat.simps)

section \<open>Properties of the page specification\<close>

lemma digit_nth:
  assumes "d < 10"
  shows "is_digit (''0123456789'' ! d)" and "digit_val (''0123456789'' ! d) = d"
proof -
  from assms have "d \<in> {0, 1, 2, 3, 4, 5, 6, 7, 8, 9}" by auto
  then show "is_digit (''0123456789'' ! d)" and "digit_val (''0123456789'' ! d) = d"
    by (auto simp: is_digit_def digit_val_def)
qed

lemma str_nat_digits: "str_nat n \<noteq> [] \<and> list_all is_digit (str_nat n)"
proof (induction n rule: str_nat.induct)
  case (1 n)
  show ?case
  proof (cases "n < 10")
    case True
    then show ?thesis by (subst (1 2) str_nat.simps) (simp add: digit_nth)
  next
    case False
    then show ?thesis using 1 by (subst (1 2) str_nat.simps) (simp add: digit_nth)
  qed
qed

lemma digits_value_snoc:
  "is_digit d \<Longrightarrow> digits_value (s @ [d]) = 10 * digits_value s + digit_val d"
  by (simp add: digits_value_def)

lemma digits_value_str_nat: "digits_value (str_nat n) = n"
proof (induction n rule: str_nat.induct)
  case (1 n)
  show ?case
  proof (cases "n < 10")
    case True
    then show ?thesis
      by (subst str_nat.simps) (simp add: digits_value_def digit_nth)
  next
    case False
    then have "digits_value (str_nat n) =
        10 * digits_value (str_nat (n div 10)) + digit_val (''0123456789'' ! (n mod 10))"
      by (subst str_nat.simps) (simp add: digits_value_snoc digit_nth)
    then show ?thesis using 1 False by (simp add: digit_nth)
  qed
qed

lemma int_literal_ok_digits:
  "list_all is_digit s \<Longrightarrow> int_literal_ok p s = (p \<or> s \<noteq> [])"
  by (induction s arbitrary: p) auto

lemma digit_plain:
  assumes "is_digit c"
  shows "\<not> is_space c" "c \<noteq> CHR ''-''" "c \<noteq> CHR ''+''" "c \<noteq> CHR '',''" "lower_char c = c"
  using assms by (auto simp: is_digit_def is_space_def lower_char_def)

lemma str_nat_ends:
  "is_digit (hd (str_nat n))" "is_digit (last (str_nat n))"
  using str_nat_digits [of n]
  by (cases "str_nat n"; simp add: list_all_iff)+

lemma str_nat_set: "c \<in> set (str_nat n) \<Longrightarrow> is_digit c"
  using str_nat_digits [of n] by (simp add: list_all_iff)

lemma py_strip_padded:
  assumes "list_all is_space l" "list_all is_space r" "t \<noteq> []"
    "\<not> is_space (hd t)" "\<not> is_space (last t)"
  shows "py_strip (l @ t @ r) = t"
proof -
  have "dropWhile is_space (l @ t @ r) = dropWhile is_space (t @ r)"
    using assms(1) by (simp add: list_all_iff dropWhile_append2)
  also have "\<dots> = t @ r" using assms(3,4) by (cases t) simp_all
  finally have a: "dropWhile is_space (l @ t @ r) = t @ r" .
  have "dropWhile is_space (rev (t @ r)) = dropWhile is_space (rev t)"
  proof -
    have "\<forall>x\<in>set (rev r). is_space x" using assms(2) by (simp add: list_all_iff)
    then have "dropWhile is_space (rev r @ rev t) = dropWhile is_space (rev t)"
      using dropWhile_append2 [of "rev r" is_space "rev t"] by blast
    then show ?thesis by simp
  qed
  also have "\<dots> = rev t" using assms(3,5) by (cases "rev t") (auto simp: hd_rev)
  finally show ?thesis by (simp add: py_strip_def a)
qed

lemma py_strip_str_nat:
  assumes "list_all is_space l" "list_all is_space r"
  shows "py_strip (l @ str_nat n @ r) = str_nat n"
  using assms str_nat_digits [of n] str_nat_ends [of n]
  by (intro py_strip_padded) (auto simp: digit_plain)

lemma py_int_str_nat:
  assumes "list_all is_space l" "list_all is_space r"
  shows "py_int (l @ str_nat n @ r) = Inr (int n)"
proof -
  have ne: "str_nat n \<noteq> []" using str_nat_digits by simp
  have h: "hd (str_nat n) \<noteq> CHR ''-''" "hd (str_nat n) \<noteq> CHR ''+''"
    using str_nat_ends(1) [of n] digit_plain by blast+
  show ?thesis
    using ne h str_nat_digits [of n]
    by (simp add: py_int_def py_strip_str_nat [OF assms] Let_def int_literal_ok_digits
          digits_value_str_nat)
qed

lemma split_char_not_Nil [simp]: "split_char c s \<noteq> []"
  by (induction s) (auto split: list.splits)

lemma split_char_none: "c \<notin> set p \<Longrightarrow> split_char c p = [p]"
  by (induction p) auto

lemma split_char_first:
  "c \<notin> set p \<Longrightarrow> split_char c (p @ c # rest) = p # split_char c rest"
  by (induction p) (auto split: list.splits)

lemma split_char_join:
  assumes "pieces \<noteq> []" "\<forall>p\<in>set pieces. c \<notin> set p"
  shows "split_char c (str_join [c] pieces) = pieces"
  using assms
proof (induction "[c]" pieces rule: str_join.induct)
  case 1
  then show ?case by simp
next
  case (2 p)
  then show ?case by (simp add: split_char_none)
next
  case (3 p q ps)
  then show ?case by (simp add: split_char_first)
qed

lemma token_text_chars:
  "x \<in> set (spec_token_text t) \<Longrightarrow> is_digit x \<or> x = CHR ''-''"
  by (cases t) (auto dest: str_nat_set)

lemma piece_no_comma:
  assumes "spec_padding_ok p"
  shows "CHR '','' \<notin> set (spec_piece p)"
proof -
  obtain l t r where p: "p = (l, t, r)" by (cases p)
  have sp: "\<not> is_space (CHR '','')" by (simp add: is_space_def)
  have dg: "\<not> is_digit (CHR '','')" by (simp add: is_digit_def)
  have "CHR '','' \<notin> set l" "CHR '','' \<notin> set r"
    using assms sp by (auto simp: p list_all_iff)
  moreover have "CHR '','' \<notin> set (spec_token_text t)"
    using token_text_chars [of "CHR '',''" t] dg by auto
  ultimately show ?thesis by (simp add: p)
qed

lemma parse_page_spec_single:
  assumes "list_all is_space l" "list_all is_space r"
  shows "parse_page_spec (l @ str_nat n @ r) = Inr [int n]"
proof -
  have strip: "py_strip (l @ str_nat n @ r) = str_nat n"
    by (rule py_strip_str_nat [OF assms])
  have nodash: "CHR ''-'' \<notin> set (str_nat n)"
    using str_nat_set [of "CHR ''-''" n] digit_plain(2) by blast
  have "py_int (str_nat n) = Inr (int n)"
    using py_int_str_nat [of "[]" "[]" n] by simp
  then show ?thesis by (simp add: parse_page_spec_def strip nodash Let_def)
qed

lemma parse_page_spec_range:
  assumes "list_all is_space l" "list_all is_space r"
  shows "parse_page_spec (l @ (str_nat a @ ''-'' @ str_nat b) @ r) = Inr [int a..int b]"
proof -
  let ?t = "str_nat a @ ''-'' @ str_nat b"
  have ne: "str_nat a \<noteq> []" "str_nat b \<noteq> []" using str_nat_digits by simp_all
  have hd_t: "hd ?t = hd (str_nat a)" using ne by simp
  have last_t: "last ?t = last (str_nat b)" using ne by simp
  have strip: "py_strip (l @ ?t @ r) = ?t"
    using assms ne str_nat_ends [of a] str_nat_ends [of b]
    by (intro py_strip_padded) (auto simp: hd_t last_t digit_plain simp del: append.simps)
  have nodash: "CHR ''-'' \<notin> set (str_nat a)" "CHR ''-'' \<notin> set (str_nat b)"
    using str_nat_set [of "CHR ''-''"] digit_plain(2) by blast+
  have split: "split_char (CHR ''-'') ?t = [str_nat a, str_nat b]"
    using split_char_first [OF nodash(1), of "str_nat b"] split_char_none [OF nodash(2)]
    by simp
  have ints: "py_int (str_nat a) = Inr (int a)" "py_int (str_nat b) = Inr (int b)"
    using py_int_str_nat [of "[]" "[]"] by simp_all
  have "parse_page_spec (l @ ?t @ r) = Inr [int a..int b]"
    unfolding parse_page_spec_def strip Let_def split
    by (simp add: ints)
  then show ?thesis by simp
qed

lemma parse_page_spec_piece:
  assumes "spec_padding_ok p"
  shows "parse_page_spec (spec_piece p) = Inr (spec_token_pages (fst (snd p)))"
proof -
  obtain l t r where p: "p = (l, t, r)" by (cases p)
  from assms have ws: "list_all is_space l" "list_all is_space r" by (simp_all add: p)
  show ?thesis
  proof (cases t)
    case (Single n)
    then show ?thesis using parse_page_spec_single [OF ws, of n] by (simp add: p)
  next
    case (Range a b)
    then show ?thesis using parse_page_spec_range [OF ws, of a b] by (simp add: p)
  qed
qed

lemma parse_specs_pieces:
  assumes "list_all spec_padding_ok toks"
  shows "parse_specs (map spec_piece toks) acc = Inr (acc @ spec_expand toks)"
  using assms
proof (induction toks arbitrary: acc)
  case Nil
  then show ?case by (simp add: spec_expand_def)
next
  case (Cons p toks)
  then have ok: "spec_padding_ok p" and rest: "list_all spec_padding_ok toks" by simp_all
  have e: "spec_expand (p # toks) = spec_token_pages (fst (snd p)) @ spec_expand toks"
    by (cases p) (simp add: spec_expand_def)
  show ?case
    using Cons.IH [OF rest] parse_page_spec_piece [OF ok] by (simp add: e)
qed

lemma lower_all_no_digit:
  assumes "py_lower s = ''all''"
  shows "\<not> list_ex is_digit s"
proof
  assume "list_ex is_digit s"
  then obtain c where c: "c \<in> set s" "is_digit c" by (auto simp: list_ex_iff)
  then have "lower_char c \<in> set (py_lower s)" by (simp add: py_lower_def)
  then have "c \<in> set ''all''" using c(2) assms by (simp add: digit_plain)
  then show False using c(2) by (auto simp: is_digit_def)
qed

lemma render_has_digit:
  assumes "toks \<noteq> []"
  shows "list_ex is_digit (spec_render toks)"
proof -
  obtain p ps where t: "toks = p # ps" using assms by (cases toks) auto
  obtain l tk r where p: "p = (l, tk, r)" by (cases p)
  have "list_ex is_digit (spec_token_text tk)"
    using str_nat_ends(1) str_nat_digits
    by (cases tk) (auto simp: list_ex_iff intro: hd_in_set)
  then have "list_ex is_digit (spec_piece p)" by (auto simp: p list_ex_iff)
  then show ?thesis
    by (cases ps) (auto simp: spec_render_def t list_ex_iff)
qed

text \<open>
  C7. In both scripts, a specification whose lower-case form is \<^verbatim>\<open>all\<close> is parsed
  to the value that stands for every page. A specification that is a comma-separated
  sequence of at least one token, each a page number or a range of two page numbers with
  a hyphen and each between any whitespace, is parsed to the pages of its tokens, in
  the order of the text: a single page for a page number and the pages of the inclusive
  range for a range. The specification \<^verbatim>\<open>1,3,5-7\<close> gives the pages 1, 3, 5, 6, 7.
\<close>

theorem parse_pages_spec:
  "(py_lower s = ''all'' \<longrightarrow>
      parse_pages (PyStr s) = Inr AllPages \<and> parse_pages_a2 (PyStr s) = Inr AllPages) \<and>
   (toks \<noteq> [] \<and> list_all spec_padding_ok toks \<longrightarrow>
      parse_pages (PyStr (spec_render toks)) = Inr (PageList (spec_expand toks)) \<and>
      parse_pages_a2 (PyStr (spec_render toks)) = Inr (PageList (spec_expand toks))) \<and>
   parse_pages (PyStr ''1,3,5-7'') = Inr (PageList [1, 3, 5, 6, 7]) \<and>
   parse_pages_a2 (PyStr ''1,3,5-7'') = Inr (PageList [1, 3, 5, 6, 7])"
proof -
  have a2: "parse_pages_a2 (PyStr x) = parse_pages (PyStr x)" for x
    by (simp add: parse_pages_a2_def parse_pages_def)
  have all: "parse_pages (PyStr s) = Inr AllPages" if "py_lower s = ''all''"
    using that by (simp add: parse_pages_def)
  have tokens: "parse_pages (PyStr (spec_render toks)) = Inr (PageList (spec_expand toks))"
    if ne: "toks \<noteq> []" and ok: "list_all spec_padding_ok toks"
  proof -
    have notall: "py_lower (spec_render toks) \<noteq> ''all''"
      using render_has_digit [OF ne] lower_all_no_digit by blast
    have "\<forall>p\<in>set (map spec_piece toks). CHR '','' \<notin> set p"
      using ok piece_no_comma by (auto simp: list_all_iff)
    then have split: "split_char (CHR '','') (spec_render toks) = map spec_piece toks"
      unfolding spec_render_def
      using ne split_char_join [of "map spec_piece toks" "CHR '',''"] by simp
    show ?thesis
      using parse_specs_pieces [OF ok, of "[]"] notall by (simp add: parse_pages_def split)
  qed
  have example: "parse_pages (PyStr ''1,3,5-7'') = Inr (PageList [1, 3, 5, 6, 7])"
    by (simp add: parse_pages_def py_lower_def lower_char_def parse_page_spec_def py_strip_def
          is_space_def py_int_def is_digit_def digits_value_def digit_val_def Let_def upto.simps)
  from all tokens example show ?thesis by (simp add: a2)
qed

theorem parse_pages_spec_witness:
  "py_lower ''All'' = ''all'' \<and>
   parse_pages (PyStr ''All'') = Inr AllPages \<and>
   parse_pages_a2 (PyStr ''All'') = Inr AllPages \<and>
   [('' '', Single 2, ''''), ('''', Range 4 6, '' '')] \<noteq> [] \<and>
   list_all spec_padding_ok [('' '', Single 2, ''''), ('''', Range 4 6, '' '')] \<and>
   parse_pages (PyStr (spec_render [('' '', Single 2, ''''), ('''', Range 4 6, '' '')])) =
     Inr (PageList (spec_expand [('' '', Single 2, ''''), ('''', Range 4 6, '' '')])) \<and>
   parse_pages_a2 (PyStr (spec_render [('' '', Single 2, ''''), ('''', Range 4 6, '' '')])) =
     Inr (PageList (spec_expand [('' '', Single 2, ''''), ('''', Range 4 6, '' '')])) \<and>
   spec_render [('' '', Single 2, ''''), ('''', Range 4 6, '' '')] = '' 2,4-6 '' \<and>
   spec_expand [('' '', Single 2, ''''), ('''', Range 4 6, '' '')] = [2, 4, 5, 6]"
proof -
  have h1: "py_lower ''All'' = ''all''" by (simp add: py_lower_def lower_char_def)
  have h2: "[('' '', Single 2, ''''), ('''', Range 4 6, '' '')] \<noteq> [] \<and>
            list_all spec_padding_ok [('' '', Single 2, ''''), ('''', Range 4 6, '' '')]"
    by (simp add: is_space_def)
  have r: "spec_render [('' '', Single 2, ''''), ('''', Range 4 6, '' '')] = '' 2,4-6 ''"
    by (simp add: spec_render_def str_nat.simps)
  have e: "spec_expand [('' '', Single 2, ''''), ('''', Range 4 6, '' '')] = [2, 4, 5, 6]"
    by (simp add: spec_expand_def upto.simps)
  from parse_pages_spec [of "''All''" "[('' '', Single 2, ''''), ('''', Range 4 6, '' '')]"]
    h1 h2 r e
  show ?thesis by blast
qed

text \<open>
  C9. On every string the two scripts parse the page specification alike: they give
  the same list of pages or the same value for every page, and they fail on the same
  strings with the same exception.
\<close>

theorem parse_pages_agree: "parse_pages_a2 (PyStr s) = parse_pages (PyStr s)"
  by (simp add: parse_pages_a2_def parse_pages_def)

section \<open>Properties of the run\<close>

lemma path_under_pdf: "path_under d (d @ ''/temp_pdf.pdf'')"
  by (simp add: path_under_def)

lemma download_pdf_cases:
  assumes "download_pdf env url d w1 = (r, w2)"
  shows "(r = Returns (d @ ''/temp_pdf.pdf'') \<or> r = SysExit 1) \<and>
         set (paths w1) \<subseteq> set (paths w2) \<and>
         ((\<exists>e. http_get env url = Inl e) \<longrightarrow> r = SysExit 1 \<and> w2 = w1) \<and>
         ((\<exists>c. http_get env url = Inr c \<and> file_write env (d @ ''/temp_pdf.pdf'') c = Written)
            \<longrightarrow> r = Returns (d @ ''/temp_pdf.pdf'') \<and> d @ ''/temp_pdf.pdf'' \<in> set (paths w2)) \<and>
         (r = SysExit 1 \<longrightarrow>
            \<not> (\<exists>c. http_get env url = Inr c \<and> file_write env (d @ ''/temp_pdf.pdf'') c = Written))"
  using assms
  by (auto simp: download_pdf_def Let_def split: sum.splits write_result.splits)

lemma extract_tables_cases:
  assumes "extract_tables env p pg out k f sep w2 = (r, w3)"
  shows "(r = Returns () \<or> r = SysExit 1) \<and> set (paths w2) \<subseteq> set (paths w3) \<and>
         (r = Returns () \<longrightarrow> out \<in> set (paths w3))"
  using assms by (auto simp: extract_tables_def split: sum.splits if_splits)

lemma extract_tables_a2_cases:
  assumes "extract_tables_a2 env p pg out w2 = (r, w3)"
  shows "(r = Returns () \<or> r = SysExit 1) \<and> set (paths w2) \<subseteq> set (paths w3) \<and>
         (r = Returns () \<longrightarrow> out \<in> set (paths w3))"
  using assms by (auto simp: extract_tables_a2_def split: sum.splits if_splits)

text \<open>
  C10. Let the cleanup of the temporary directory do what the library promises: after it,
  no path under the directory exists. A run that ends before the \<^verbatim>\<open>with\<close> statement
  (missing dependencies, or the output directory cannot be made) never makes the
  directory and leaves the file system as it was. Every other run of either script
  ends by returning or by \<^verbatim>\<open>sys.exit(1)\<close>, and its last step is the cleanup of the
  directory that entering made: the cleanup runs on the file system as the body left
  it, in which everything that was there when the body began is still there. When the
  request fails, the body has changed nothing; when the download succeeds, the PDF is
  in the directory when the cleanup runs; when the run returns, the output has been
  written. In each case no path under the directory exists when the run has ended.
\<close>

theorem temp_dir_removed:
  assumes "\<forall>x w'. \<not> list_ex (path_under x) (paths (tmp_cleanup env x w'))"
    and "tmp_enter env w = (d, w1)"
  shows "(\<not> (deps_available env \<and> mkdir_ok env) \<longrightarrow>
            snd (main env args w) = w \<and> snd (main_a2 env args w) = w \<and>
            fst (main env args w) \<noteq> Returns () \<and> fst (main_a2 env args w) \<noteq> Returns ()) \<and>
         (deps_available env \<and> mkdir_ok env \<longrightarrow>
            (\<exists>r w2. main env args w = (r, tmp_cleanup env d w2) \<and>
                (r = Returns () \<or> r = SysExit 1) \<and>
                set (paths w1) \<subseteq> set (paths w2) \<and>
                ((\<exists>e. http_get env (arg_pdf_url args) = Inl e) \<longrightarrow> r = SysExit 1 \<and> w2 = w1) \<and>
                ((\<exists>c. http_get env (arg_pdf_url args) = Inr c \<and>
                      file_write env (d @ ''/temp_pdf.pdf'') c = Written)
                   \<longrightarrow> d @ ''/temp_pdf.pdf'' \<in> set (paths w2)) \<and>
                (r = Returns () \<longrightarrow> arg_output_csv args \<in> set (paths w2))) \<and>
            (\<exists>r w2. main_a2 env args w = (r, tmp_cleanup env d w2) \<and>
                (r = Returns () \<or> r = SysExit 1) \<and>
                set (paths w1) \<subseteq> set (paths w2) \<and>
                ((\<exists>e. http_get env (arg_pdf_url args) = Inl e) \<longrightarrow> r = SysExit 1 \<and> w2 = w1) \<and>
                ((\<exists>c. http_get env (arg_pdf_url args) = Inr c \<and>
                      file_write env (d @ ''/temp_pdf.pdf'') c = Written)
                   \<longrightarrow> d @ ''/temp_pdf.pdf'' \<in> set (paths w2)) \<and>
                (r = Returns () \<longrightarrow> arg_output_csv args \<in> set (paths w2))) \<and>
            \<not> list_ex (path_under d) (paths (snd (main env args w))) \<and>
            \<not> list_ex (path_under d) (paths (snd (main_a2 env args w))))"
proof (intro conjI impI)
  assume early: "\<not> (deps_available env \<and> mkdir_ok env)"
  then show "snd (main env args w) = w" "snd (main_a2 env args w) = w"
    "fst (main env args w) \<noteq> Returns ()" "fst (main_a2 env args w) \<noteq> Returns ()"
    by (auto simp: main_def main_a2_def)
next
  assume reach: "deps_available env \<and> mkdir_ok env"
  let ?url = "arg_pdf_url args"
  let ?body = "case download_pdf env ?url d w1 of
                  (Returns pdf_path, w2) \<Rightarrow>
                    extract_tables env pdf_path (PyStr (arg_pages args)) (arg_output_csv args)
                      (arg_header_rows args) (arg_flatten_headers args) (arg_header_sep args) w2
                | (SysExit n, w2) \<Rightarrow> (SysExit n, w2)
                | (Uncaught e, w2) \<Rightarrow> (Uncaught e, w2)"
  let ?body2 = "case download_pdf env ?url d w1 of
                  (Returns pdf_path, w2) \<Rightarrow>
                    extract_tables_a2 env pdf_path (PyStr (arg_pages args)) (arg_output_csv args) w2
                | (SysExit n, w2) \<Rightarrow> (SysExit n, w2)
                | (Uncaught e, w2) \<Rightarrow> (Uncaught e, w2)"
  obtain r w2 where b: "?body = (r, w2)" by (cases ?body)
  obtain r' w2' where b2: "?body2 = (r', w2')" by (cases ?body2)
  have m: "main env args w = (r, tmp_cleanup env d w2)"
    using reach assms(2) b by (simp add: main_def with_stmt_def)
  have m2: "main_a2 env args w = (r', tmp_cleanup env d w2')"
    using reach assms(2) b2 by (simp add: main_a2_def with_stmt_def)
  obtain r1 wd where dl: "download_pdf env ?url d w1 = (r1, wd)"
    by (cases "download_pdf env ?url d w1")
  note dc = download_pdf_cases [OF dl]
  have c: "(r = Returns () \<or> r = SysExit 1) \<and>
            set (paths w1) \<subseteq> set (paths w2) \<and>
            ((\<exists>e. http_get env ?url = Inl e) \<longrightarrow> r = SysExit 1 \<and> w2 = w1) \<and>
            ((\<exists>c. http_get env ?url = Inr c \<and> file_write env (d @ ''/temp_pdf.pdf'') c = Written)
               \<longrightarrow> d @ ''/temp_pdf.pdf'' \<in> set (paths w2)) \<and>
            (r = Returns () \<longrightarrow> arg_output_csv args \<in> set (paths w2))"
  proof (cases "r1 = Returns (d @ ''/temp_pdf.pdf'')")
    case True
    with b dl have e: "extract_tables env (d @ ''/temp_pdf.pdf'') (PyStr (arg_pages args))
        (arg_output_csv args) (arg_header_rows args) (arg_flatten_headers args)
        (arg_header_sep args) wd = (r, w2)"
      by simp
    from extract_tables_cases [OF e] dc True show ?thesis by auto
  next
    case False
    with dc have r1: "r1 = SysExit 1" by blast
    with b dl have "r = SysExit 1" "w2 = wd" by simp_all
    with dc r1 show ?thesis by auto
  qed
  have c2: "(r' = Returns () \<or> r' = SysExit 1) \<and>
            set (paths w1) \<subseteq> set (paths w2') \<and>
            ((\<exists>e. http_get env ?url = Inl e) \<longrightarrow> r' = SysExit 1 \<and> w2' = w1) \<and>
            ((\<exists>c. http_get env ?url = Inr c \<and> file_write env (d @ ''/temp_pdf.pdf'') c = Written)
               \<longrightarrow> d @ ''/temp_pdf.pdf'' \<in> set (paths w2')) \<and>
            (r' = Returns () \<longrightarrow> arg_output_csv args \<in> set (paths w2'))"
  proof (cases "r1 = Returns (d @ ''/temp_pdf.pdf'')")
    case True
    with b2 dl have e: "extract_tables_a2 env (d @ ''/temp_pdf.pdf'') (PyStr (arg_pages args))
        (arg_output_csv args) wd = (r', w2')"
      by simp
    from extract_tables_a2_cases [OF e] dc True show ?thesis by auto
  next
    case False
    with dc have r1: "r1 = SysExit 1" by blast
    with b2 dl have "r' = SysExit 1" "w2' = wd" by simp_all
    with dc r1 show ?thesis by auto
  qed
  show "\<exists>r w2. main env args w = (r, tmp_cleanup env d w2) \<and>
                (r = Returns () \<or> r = SysExit 1) \<and>
                set (paths w1) \<subseteq> set (paths w2) \<and>
                ((\<exists>e. http_get env (arg_pdf_url args) = Inl e) \<longrightarrow> r = SysExit 1 \<and> w2 = w1) \<and>
                ((\<exists>c. http_get env (arg_pdf_url args) = Inr c \<and>
                      file_write env (d @ ''/temp_pdf.pdf'') c = Written)
                   \<longrightarrow> d @ ''/temp_pdf.pdf'' \<in> set (paths w2)) \<and>
                (r = Returns () \<longrightarrow> arg_output_csv args \<in> set (paths w2))"
    using m c by blast
  show "\<exists>r w2. main_a2 env args w = (r, tmp_cleanup env d w2) \<and>
                (r = Returns () \<or> r = SysExit 1) \<and>
                set (paths w1) \<subseteq> set (paths w2) \<and>
                ((\<exists>e. http_get env (arg_pdf_url args) = Inl e) \<longrightarrow> r = SysExit 1 \<and> w2 = w1) \<and>
                ((\<exists>c. http_get env (arg_pdf_url args) = Inr c \<and>
                      file_write env (d @ ''/temp_pdf.pdf'') c = Written)
                   \<longrightarrow> d @ ''/temp_pdf.pdf'' \<in> set (paths w2)) \<and>
                (r = Returns () \<longrightarrow> arg_output_csv args \<in> set (paths w2))"
    using m2 c2 by blast
  show "\<not> list_ex (path_under d) (paths (snd (main env args w)))"
    using assms(1) by (simp add: m)
  show "\<not> list_ex (path_under d) (paths (snd (main_a2 env args w)))"
    using assms(1) by (simp add: m2)
qed

theorem temp_dir_removed_witness:
  "(\<forall>x w'. \<not> list_ex (path_under x) (paths (tmp_cleanup demo_env x w'))) \<and>
   tmp_enter demo_env \<lparr>paths = [''keep.txt'']\<rparr> =
     (''/tmp/tmpab12'', \<lparr>paths = [''/tmp/tmpab12'', ''keep.txt'']\<rparr>) \<and>
   deps_available demo_env \<and> mkdir_ok demo_env \<and>
   \<not> list_ex (path_under ''/tmp/tmpab12'')
       (paths (snd (main demo_env demo_args \<lparr>paths = [''keep.txt'']\<rparr>))) \<and>
   \<not> list_ex (path_under ''/tmp/tmpab12'')
       (paths (snd (main_a2 demo_env demo_args \<lparr>paths = [''keep.txt'']\<rparr>))) \<and>
   main demo_env demo_args \<lparr>paths = [''keep.txt'']\<rparr> =
     (Returns (), \<lparr>paths = [''out.csv'', ''keep.txt'']\<rparr>) \<and>
   main demo_env (demo_args\<lparr>arg_pages := ''x''\<rparr>) \<lparr>paths = [''keep.txt'']\<rparr> =
     (SysExit 1, \<lparr>paths = [''keep.txt'']\<rparr>)"
proof -
  have h1: "\<forall>x w'. \<not> list_ex (path_under x) (paths (tmp_cleanup demo_env x w'))"
    by (simp add: demo_env_def rmtree_def list_ex_iff)
  have h2: "tmp_enter demo_env \<lparr>paths = [''keep.txt'']\<rparr> =
              (''/tmp/tmpab12'', \<lparr>paths = [''/tmp/tmpab12'', ''keep.txt'']\<rparr>)"
    by (simp add: demo_env_def mkdtemp_at_def)
  have h3: "deps_available demo_env \<and> mkdir_ok demo_env"
    by (simp add: demo_env_def)
  have pages: "parse_pages (PyStr ''1,3'') = Inr (PageList [1, 3])"
    by (simp add: parse_pages_def py_lower_def lower_char_def parse_page_spec_def py_strip_def
          is_space_def py_int_def is_digit_def digits_value_def digit_val_def Let_def)
  have bad: "parse_pages (PyStr ''x'') = Inl ValueError"
    by (simp add: parse_pages_def py_lower_def lower_char_def parse_page_spec_def py_strip_def
          is_space_def py_int_def is_digit_def Let_def)
  have norm: "apply_multirow_header MultiIndex_from_arrays float_str_small spec_example 2 True
                '' - '' =
              Inr \<lparr>columns = Index [''A - x'', ''y'', ''B - z''],
                   dtypes = [Object, Object, Object], rows = [[PyInt 1, PyInt 2, PyNaN]]\<rparr>"
    by (simp add: apply_multirow_header_def spec_example_def header_arrays_def frame_values_def
          common_dtype_def flat_cols_def set_columns_def shape1_def Let_def py_strip_def
          is_space_def py_lower_def lower_char_def upt_rec numeral_nat str_nat.simps)
  have ev: "main demo_env demo_args \<lparr>paths = [''keep.txt'']\<rparr> =
              (Returns (), \<lparr>paths = [''out.csv'', ''keep.txt'']\<rparr>)"
    by (simp add: main_def with_stmt_def demo_env_def demo_args_def mkdtemp_at_def rmtree_def
          download_pdf_def extract_tables_def pages norm path_under_def Let_def)
  have ev2: "main demo_env (demo_args\<lparr>arg_pages := ''x''\<rparr>) \<lparr>paths = [''keep.txt'']\<rparr> =
              (SysExit 1, \<lparr>paths = [''keep.txt'']\<rparr>)"
    by (simp add: main_def with_stmt_def demo_env_def demo_args_def mkdtemp_at_def rmtree_def
          download_pdf_def extract_tables_def bad path_under_def Let_def)
  from temp_dir_removed [OF h1 h2, of demo_args] h1 h2 h3 ev ev2 show ?thesis by blast
qed

end
